theory Spec2Isabelle
  imports Main "HOL-Library.Multiset"
begin

section \<open>The package manager query descriptor (packmanager/query.go)\<close>

subsection \<open>Go values used by the descriptor\<close>

text \<open>
  A Go slice is either \<^verbatim>\<open>nil\<close> or a sequence of elements; both have a length, and
  only the second can be non-empty. \<open>None\<close> is the nil slice. The same holds for a Go
  map: \<open>None\<close> is the nil map, \<open>Some Map.empty\<close> a map that is present but empty.
  The aliasing of the backing store is not modelled: no function of the file writes
  through a slice or a map.
\<close>

type_synonym 'a slice = "'a list option"

type_synonym ('k, 'v) gomap = "('k \<rightharpoonup> 'v) option"

text \<open>The run-time panics that the statements of the file can raise.\<close>

datatype panic = NilFuncCall | IndexOutOfRange

definition slice_len :: "'a slice \<Rightarrow> nat" where
  "slice_len s = (case s of None \<Rightarrow> 0 | Some xs \<Rightarrow> length xs)"

text \<open>\<^verbatim>\<open>s[i]\<close>: Go checks the index against the length and panics outside it.\<close>

definition slice_index :: "'a slice \<Rightarrow> nat \<Rightarrow> panic + 'a" where
  "slice_index s i =
     (case s of
        None \<Rightarrow> Inl IndexOutOfRange
      | Some xs \<Rightarrow> if i < length xs then Inr (xs ! i) else Inl IndexOutOfRange)"

text \<open>The elements that \<^verbatim>\<open>for _, t := range s\<close> visits, in order.\<close>

definition slice_range :: "'a slice \<Rightarrow> 'a list" where
  "slice_range s = (case s of None \<Rightarrow> [] | Some xs \<Rightarrow> xs)"

text \<open>
  Modelled from the spec: the type \<^verbatim>\<open>unikraft.ComponentType\<close> is declared in another
  package. The spec calls its values type tags and renders them as the strings they are
  (\<^verbatim>\<open>"lib"\<close>, \<^verbatim>\<open>"app"\<close>); the source converts them with \<^verbatim>\<open>string(t)\<close>. It is
  a string type here, and the conversion is the identity.
\<close>

type_synonym ComponentType = string

text \<open>
  Modelled from the spec: \<^verbatim>\<open>utils.ListJoinStr\<close> is defined in another package. The spec
  has the type tags "joined by" the delimiter, in the order of the sequence: the
  delimiter stands between two neighbours and nowhere else.
\<close>

fun ListJoinStr :: "string list \<Rightarrow> string \<Rightarrow> string" where
  "ListJoinStr [] delim = []"
| "ListJoinStr [item] delim = item"
| "ListJoinStr (item # items) delim = item @ delim @ ListJoinStr items delim"

subsection \<open>The descriptor\<close>

text \<open>
  \<^verbatim>\<open>config.AuthConfig\<close> is declared in another package and only passed through here:
  it is the type parameter \<open>'auth\<close>.
\<close>

record 'auth Query =
  source :: string
  types :: "ComponentType slice"
  name :: string
  version :: string
  useCache :: bool
  auths :: "(string, 'auth) gomap"
  all :: bool
  noManifestPackage :: bool
  noOCIPackage :: bool

text \<open>\<^verbatim>\<open>Query{}\<close>: every field has the zero value of its type.\<close>

definition Query_zero :: "'auth Query" where
  "Query_zero =
     \<lparr>source = [], types = None, name = [], version = [], useCache = False,
      auths = None, all = False, noManifestPackage = False, noOCIPackage = False\<rparr>"

subsection \<open>Accessors\<close>

definition Query_Source :: "'auth Query \<Rightarrow> string" where
  "Query_Source query = source query"

definition Query_Types :: "'auth Query \<Rightarrow> ComponentType slice" where
  "Query_Types query = types query"

definition Query_Name :: "'auth Query \<Rightarrow> string" where
  "Query_Name query = name query"

definition Query_Version :: "'auth Query \<Rightarrow> string" where
  "Query_Version query = version query"

definition Query_UseCache :: "'auth Query \<Rightarrow> bool" where
  "Query_UseCache query = useCache query"

definition Query_Auths :: "'auth Query \<Rightarrow> (string, 'auth) gomap" where
  "Query_Auths query = auths query"

definition Query_All :: "'auth Query \<Rightarrow> bool" where
  "Query_All query = all query"

definition Query_NoManifestPackage :: "'auth Query \<Rightarrow> bool" where
  "Query_NoManifestPackage query = noManifestPackage query"

definition Query_NoOCIPackage :: "'auth Query \<Rightarrow> bool" where
  "Query_NoOCIPackage query = noOCIPackage query"

text \<open>
  The values that \<^verbatim>\<open>Fields\<close> stores under \<^verbatim>\<open>interface{}\<close>: a string, a slice of
  type tags or a boolean.
\<close>

datatype iface = IString string | ITypes "ComponentType slice" | IBool bool

definition Query_Fields :: "'auth Query \<Rightarrow> (string \<rightharpoonup> iface)" where
  "Query_Fields query =
     [''name'' \<mapsto> IString (name query),
      ''version'' \<mapsto> IString (version query),
      ''source'' \<mapsto> IString (source query),
      ''types'' \<mapsto> ITypes (types query),
      ''cache'' \<mapsto> IBool (useCache query),
      ''auth'' \<mapsto> IBool (auths query \<noteq> None)]"

subsection \<open>Options and the builder\<close>

text \<open>
  A \<^verbatim>\<open>QueryOption\<close> is a function value \<^verbatim>\<open>func(*Query)\<close>: either nil (\<open>None\<close>) or a
  closure that updates the descriptor it is given. Calling nil panics.
\<close>

type_synonym 'auth QueryOption = "('auth Query \<Rightarrow> 'auth Query) option"

definition call_option :: "'auth QueryOption \<Rightarrow> 'auth Query \<Rightarrow> panic + 'auth Query" where
  "call_option qopt query =
     (case qopt of None \<Rightarrow> Inl NilFuncCall | Some f \<Rightarrow> Inr (f query))"

text \<open>The loop of \<^verbatim>\<open>NewQuery\<close> over the options, from the current descriptor.\<close>

fun NewQuery_loop :: "'auth QueryOption list \<Rightarrow> 'auth Query \<Rightarrow> panic + 'auth Query" where
  "NewQuery_loop [] query = Inr query"
| "NewQuery_loop (qopt # qopts) query =
     (case call_option qopt query of
        Inl e \<Rightarrow> Inl e
      | Inr query' \<Rightarrow> NewQuery_loop qopts query')"

definition NewQuery :: "'auth QueryOption list \<Rightarrow> panic + 'auth Query" where
  "NewQuery qopts = NewQuery_loop qopts Query_zero"

text \<open>
  \<^verbatim>\<open>WithTypes\<close> is variadic: called with no argument its parameter is the nil slice,
  called with \<^verbatim>\<open>ts...\<close> it is the slice \<^verbatim>\<open>ts\<close> itself.
\<close>

definition WithSource :: "string \<Rightarrow> 'auth QueryOption" where
  "WithSource source' = Some (\<lambda>query. query\<lparr>source := source'\<rparr>)"

definition WithTypes :: "ComponentType slice \<Rightarrow> 'auth QueryOption" where
  "WithTypes types' = Some (\<lambda>query. query\<lparr>types := types'\<rparr>)"

definition WithName :: "string \<Rightarrow> 'auth QueryOption" where
  "WithName name' = Some (\<lambda>query. query\<lparr>name := name'\<rparr>)"

definition WithVersion :: "string \<Rightarrow> 'auth QueryOption" where
  "WithVersion version' = Some (\<lambda>query. query\<lparr>version := version'\<rparr>)"

definition WithCache :: "bool \<Rightarrow> 'auth QueryOption" where
  "WithCache useCache' = Some (\<lambda>query. query\<lparr>useCache := useCache'\<rparr>)"

definition WithAuthConfig :: "(string, 'auth) gomap \<Rightarrow> 'auth QueryOption" where
  "WithAuthConfig auths' = Some (\<lambda>query. query\<lparr>auths := auths'\<rparr>)"

definition WithAll :: "bool \<Rightarrow> 'auth QueryOption" where
  "WithAll all' = Some (\<lambda>query. query\<lparr>all := all'\<rparr>)"

definition WithNoManifestPackage :: "bool \<Rightarrow> 'auth QueryOption" where
  "WithNoManifestPackage noManifestPackage' =
     Some (\<lambda>query. query\<lparr>noManifestPackage := noManifestPackage'\<rparr>)"

definition WithNoOCIPackage :: "bool \<Rightarrow> 'auth QueryOption" where
  "WithNoOCIPackage noOCIPackage' = Some (\<lambda>query. query\<lparr>noOCIPackage := noOCIPackage'\<rparr>)"

subsection \<open>Rendering\<close>

text \<open>The loop that collects \<^verbatim>\<open>string(t)\<close> for every type tag, by \<^verbatim>\<open>append\<close>.\<close>

fun types_strings :: "ComponentType list \<Rightarrow> string list \<Rightarrow> string list" where
  "types_strings [] acc = acc"
| "types_strings (t # ts) acc = types_strings ts (acc @ [t])"

text \<open>
  \<^verbatim>\<open>String\<close> builds \<^verbatim>\<open>s\<close> from the empty string in three steps: the types, the
  name, the version. Only the first step has a statement that can panic, the read of
  \<^verbatim>\<open>cq.types[0]\<close>.
\<close>

definition Query_String :: "'auth Query \<Rightarrow> panic + string" where
  "Query_String cq =
     (let s = [] in
      case
        (if slice_len (types cq) = 1 then
           (case slice_index (types cq) 0 of
              Inl e \<Rightarrow> Inl e
            | Inr t \<Rightarrow> Inr (s @ t @ ''-''))
         else if slice_len (types cq) > 1 then
           (let types' = types_strings (slice_range (types cq)) []
            in Inr (s @ ''{'' @ ListJoinStr types' '', '' @ ''}-''))
         else Inr s)
      of
        Inl e \<Rightarrow> Inl e
      | Inr s \<Rightarrow>
          (let s = (if length (name cq) > 0 then s @ name cq else s @ ''*'');
               s = (if length (version cq) > 0 then s @ '':'' @ version cq else s)
           in Inr s))"

section \<open>Vocabulary of the specification\<close>

text \<open>
  The definitions of this section are not translations of the source: they name what
  the specification talks about, so that its sentences can be stated.
\<close>

subsection \<open>Calls of the nine option constructors\<close>

datatype Field =
  FSource | FTypes | FName | FVersion | FUseCache | FAuths | FAll
  | FNoManifestPackage | FNoOCIPackage

text \<open>A call of one of the nine \<^verbatim>\<open>With*\<close> constructors, with its argument.\<close>

datatype 'auth OptionCall =
  CallWithSource string
  | CallWithTypes "ComponentType slice"
  | CallWithName string
  | CallWithVersion string
  | CallWithCache bool
  | CallWithAuthConfig "(string, 'auth) gomap"
  | CallWithAll bool
  | CallWithNoManifestPackage bool
  | CallWithNoOCIPackage bool

text \<open>The option that the call returns.\<close>

fun option_of :: "'auth OptionCall \<Rightarrow> 'auth QueryOption" where
  "option_of (CallWithSource s) = WithSource s"
| "option_of (CallWithTypes ts) = WithTypes ts"
| "option_of (CallWithName n) = WithName n"
| "option_of (CallWithVersion v) = WithVersion v"
| "option_of (CallWithCache b) = WithCache b"
| "option_of (CallWithAuthConfig a) = WithAuthConfig a"
| "option_of (CallWithAll b) = WithAll b"
| "option_of (CallWithNoManifestPackage b) = WithNoManifestPackage b"
| "option_of (CallWithNoOCIPackage b) = WithNoOCIPackage b"

text \<open>The field that the specification says the option targets.\<close>

fun target :: "'auth OptionCall \<Rightarrow> Field" where
  "target (CallWithSource s) = FSource"
| "target (CallWithTypes ts) = FTypes"
| "target (CallWithName n) = FName"
| "target (CallWithVersion v) = FVersion"
| "target (CallWithCache b) = FUseCache"
| "target (CallWithAuthConfig a) = FAuths"
| "target (CallWithAll b) = FAll"
| "target (CallWithNoManifestPackage b) = FNoManifestPackage"
| "target (CallWithNoOCIPackage b) = FNoOCIPackage"

text \<open>The value that a call supplies for a field, if it targets that field.\<close>

fun source_arg :: "'auth OptionCall \<Rightarrow> string option" where
  "source_arg (CallWithSource s) = Some s"
| "source_arg _ = None"

fun types_arg :: "'auth OptionCall \<Rightarrow> ComponentType slice option" where
  "types_arg (CallWithTypes ts) = Some ts"
| "types_arg _ = None"

fun name_arg :: "'auth OptionCall \<Rightarrow> string option" where
  "name_arg (CallWithName n) = Some n"
| "name_arg _ = None"

fun version_arg :: "'auth OptionCall \<Rightarrow> string option" where
  "version_arg (CallWithVersion v) = Some v"
| "version_arg _ = None"

fun useCache_arg :: "'auth OptionCall \<Rightarrow> bool option" where
  "useCache_arg (CallWithCache b) = Some b"
| "useCache_arg _ = None"

fun auths_arg :: "'auth OptionCall \<Rightarrow> (string, 'auth) gomap option" where
  "auths_arg (CallWithAuthConfig a) = Some a"
| "auths_arg _ = None"

fun all_arg :: "'auth OptionCall \<Rightarrow> bool option" where
  "all_arg (CallWithAll b) = Some b"
| "all_arg _ = None"

fun noManifestPackage_arg :: "'auth OptionCall \<Rightarrow> bool option" where
  "noManifestPackage_arg (CallWithNoManifestPackage b) = Some b"
| "noManifestPackage_arg _ = None"

fun noOCIPackage_arg :: "'auth OptionCall \<Rightarrow> bool option" where
  "noOCIPackage_arg (CallWithNoOCIPackage b) = Some b"
| "noOCIPackage_arg _ = None"

text \<open>
  The value supplied by the last call of the sequence that targets a field, or
  \<open>zero\<close> if no call of the sequence targets it.
\<close>

definition last_supplied :: "('c \<Rightarrow> 'v option) \<Rightarrow> 'v \<Rightarrow> 'c list \<Rightarrow> 'v" where
  "last_supplied arg zero calls =
     (case List.map_filter arg calls of [] \<Rightarrow> zero | v # vs \<Rightarrow> last (v # vs))"

subsection \<open>The content of a field\<close>

datatype 'auth FieldValue =
  VString string
  | VTypes "ComponentType slice"
  | VBool bool
  | VAuths "(string, 'auth) gomap"

fun field_value :: "Field \<Rightarrow> 'auth Query \<Rightarrow> 'auth FieldValue" where
  "field_value FSource query = VString (source query)"
| "field_value FTypes query = VTypes (types query)"
| "field_value FName query = VString (name query)"
| "field_value FVersion query = VString (version query)"
| "field_value FUseCache query = VBool (useCache query)"
| "field_value FAuths query = VAuths (auths query)"
| "field_value FAll query = VBool (all query)"
| "field_value FNoManifestPackage query = VBool (noManifestPackage query)"
| "field_value FNoOCIPackage query = VBool (noOCIPackage query)"

subsection \<open>The rendering as the specification words it\<close>

text \<open>
  The type segment: \<open><type>-\<close> for exactly one type, the types joined by a comma and a
  space between braces and followed by \<open>-\<close> for more than one, nothing for none.
\<close>

definition type_segment :: "ComponentType list \<Rightarrow> string" where
  "type_segment ts =
     (case ts of
        [] \<Rightarrow> []
      | [t] \<Rightarrow> t @ ''-''
      | _ \<Rightarrow> ''{'' @ ListJoinStr ts '', '' @ ''}-'')"

definition name_segment :: "string \<Rightarrow> string" where
  "name_segment n = (if n \<noteq> [] then n else ''*'')"

definition version_segment :: "string \<Rightarrow> string" where
  "version_segment v = (if v \<noteq> [] then '':'' @ v else [])"

definition rendering :: "ComponentType list \<Rightarrow> string \<Rightarrow> string \<Rightarrow> string" where
  "rendering ts n v = type_segment ts @ name_segment n @ version_segment v"

section \<open>Properties\<close>

subsection \<open>Auxiliary facts\<close>

lemmas option_defs =
  WithSource_def WithTypes_def WithName_def WithVersion_def WithCache_def
  WithAuthConfig_def WithAll_def WithNoManifestPackage_def WithNoOCIPackage_def

lemmas accessor_defs =
  Query_Source_def Query_Types_def Query_Name_def Query_Version_def Query_UseCache_def
  Query_Auths_def Query_All_def Query_NoManifestPackage_def Query_NoOCIPackage_def

lemma last_supplied_Nil: "last_supplied arg zero [] = zero"
  by (simp add: last_supplied_def map_filter_simps)

lemma last_supplied_Cons:
  "last_supplied arg zero (c # calls) =
     last_supplied arg (case arg c of None \<Rightarrow> zero | Some v \<Rightarrow> v) calls"
  by (cases "arg c"; cases "List.map_filter arg calls")
     (simp_all add: last_supplied_def map_filter_simps)

lemma option_of_step:
  "\<exists>f. option_of c = Some f
     \<and> source (f query) = (case source_arg c of None \<Rightarrow> source query | Some v \<Rightarrow> v)
     \<and> types (f query) = (case types_arg c of None \<Rightarrow> types query | Some v \<Rightarrow> v)
     \<and> name (f query) = (case name_arg c of None \<Rightarrow> name query | Some v \<Rightarrow> v)
     \<and> version (f query) = (case version_arg c of None \<Rightarrow> version query | Some v \<Rightarrow> v)
     \<and> useCache (f query) = (case useCache_arg c of None \<Rightarrow> useCache query | Some v \<Rightarrow> v)
     \<and> auths (f query) = (case auths_arg c of None \<Rightarrow> auths query | Some v \<Rightarrow> v)
     \<and> all (f query) = (case all_arg c of None \<Rightarrow> all query | Some v \<Rightarrow> v)
     \<and> noManifestPackage (f query) =
         (case noManifestPackage_arg c of None \<Rightarrow> noManifestPackage query | Some v \<Rightarrow> v)
     \<and> noOCIPackage (f query) =
         (case noOCIPackage_arg c of None \<Rightarrow> noOCIPackage query | Some v \<Rightarrow> v)"
  by (cases c) (simp_all add: option_defs)

lemma NewQuery_loop_fields:
  "\<exists>query'. NewQuery_loop (map option_of calls) query = Inr query'
     \<and> source query' = last_supplied source_arg (source query) calls
     \<and> types query' = last_supplied types_arg (types query) calls
     \<and> name query' = last_supplied name_arg (name query) calls
     \<and> version query' = last_supplied version_arg (version query) calls
     \<and> useCache query' = last_supplied useCache_arg (useCache query) calls
     \<and> auths query' = last_supplied auths_arg (auths query) calls
     \<and> all query' = last_supplied all_arg (all query) calls
     \<and> noManifestPackage query' =
         last_supplied noManifestPackage_arg (noManifestPackage query) calls
     \<and> noOCIPackage query' = last_supplied noOCIPackage_arg (noOCIPackage query) calls"
proof (induction calls arbitrary: query)
  case Nil
  show ?case by (simp add: last_supplied_Nil)
next
  case (Cons c calls)
  obtain f where f: "option_of c = Some f"
    and fields:
      "source (f query) = (case source_arg c of None \<Rightarrow> source query | Some v \<Rightarrow> v)"
      "types (f query) = (case types_arg c of None \<Rightarrow> types query | Some v \<Rightarrow> v)"
      "name (f query) = (case name_arg c of None \<Rightarrow> name query | Some v \<Rightarrow> v)"
      "version (f query) = (case version_arg c of None \<Rightarrow> version query | Some v \<Rightarrow> v)"
      "useCache (f query) = (case useCache_arg c of None \<Rightarrow> useCache query | Some v \<Rightarrow> v)"
      "auths (f query) = (case auths_arg c of None \<Rightarrow> auths query | Some v \<Rightarrow> v)"
      "all (f query) = (case all_arg c of None \<Rightarrow> all query | Some v \<Rightarrow> v)"
      "noManifestPackage (f query) =
         (case noManifestPackage_arg c of None \<Rightarrow> noManifestPackage query | Some v \<Rightarrow> v)"
      "noOCIPackage (f query) =
         (case noOCIPackage_arg c of None \<Rightarrow> noOCIPackage query | Some v \<Rightarrow> v)"
    using option_of_step [of c query] by blast
  from Cons.IH [of "f query"] show ?case
    by (simp add: call_option_def f fields last_supplied_Cons)
qed

lemma mset_map_filter:
  "mset calls = mset calls' \<Longrightarrow> mset (List.map_filter arg calls) = mset (List.map_filter arg calls')"
  by (simp add: map_filter_def)

lemma map_filter_untargeted:
  assumes "\<And>c v. arg c = Some v \<Longrightarrow> target c = F" and "F \<notin> set (map target calls)"
  shows "List.map_filter arg calls = []"
  using assms(2)
proof (induction calls)
  case Nil
  show ?case by (simp add: map_filter_simps)
next
  case (Cons c calls)
  from Cons.prems have "target c \<noteq> F" by auto
  with assms(1) have "arg c = None" by (cases "arg c") auto
  with Cons show ?case by (simp add: map_filter_simps)
qed

lemma map_filter_distinct_target:
  assumes "\<And>c v. arg c = Some v \<Longrightarrow> target c = F" and "distinct (map target calls)"
  shows "length (List.map_filter arg calls) \<le> 1"
  using assms(2)
proof (induction calls)
  case Nil
  show ?case by (simp add: map_filter_simps)
next
  case (Cons c calls)
  show ?case
  proof (cases "arg c")
    case None
    with Cons show ?thesis by (simp add: map_filter_simps)
  next
    case (Some v)
    with assms(1) have "target c = F" by simp
    with Cons.prems have "F \<notin> set (map target calls)" by auto
    with assms(1) have "List.map_filter arg calls = []" by (rule map_filter_untargeted)
    with Some show ?thesis by (simp add: map_filter_simps)
  qed
qed

lemma short_list_mset_eq:
  assumes "mset xs = mset ys" and "length xs \<le> 1"
  shows "xs = ys"
proof (cases xs)
  case Nil
  with assms(1) show ?thesis by simp
next
  case (Cons x xs')
  with assms(2) have "xs = [x]" by simp
  with assms(1) show ?thesis by (cases ys) (auto dest: mset_eq_length)
qed

lemma last_supplied_perm:
  assumes "\<And>c v. arg c = Some v \<Longrightarrow> target c = F"
    and "mset calls = mset calls'" and "distinct (map target calls)"
  shows "last_supplied arg zero calls = last_supplied arg zero calls'"
proof -
  have "length (List.map_filter arg calls) \<le> 1"
    using assms(1,3) by (rule map_filter_distinct_target)
  with mset_map_filter [OF assms(2)]
  have "List.map_filter arg calls = List.map_filter arg calls'"
    by (rule short_list_mset_eq)
  then show ?thesis by (simp add: last_supplied_def)
qed

lemma arg_target:
  "source_arg c = Some s \<Longrightarrow> target c = FSource"
  "types_arg c = Some ts \<Longrightarrow> target c = FTypes"
  "name_arg c = Some n \<Longrightarrow> target c = FName"
  "version_arg c = Some v \<Longrightarrow> target c = FVersion"
  "useCache_arg c = Some b \<Longrightarrow> target c = FUseCache"
  "auths_arg c = Some a \<Longrightarrow> target c = FAuths"
  "all_arg c = Some b \<Longrightarrow> target c = FAll"
  "noManifestPackage_arg c = Some b \<Longrightarrow> target c = FNoManifestPackage"
  "noOCIPackage_arg c = Some b \<Longrightarrow> target c = FNoOCIPackage"
  by (cases c; simp)+

lemma NewQuery_loop_perm:
  assumes "mset calls = mset calls'" and "distinct (map target calls)"
  shows "NewQuery_loop (map option_of calls) query = NewQuery_loop (map option_of calls') query"
proof -
  obtain q where q: "NewQuery_loop (map option_of calls) query = Inr q"
    and qf: "source q = last_supplied source_arg (source query) calls"
      "types q = last_supplied types_arg (types query) calls"
      "name q = last_supplied name_arg (name query) calls"
      "version q = last_supplied version_arg (version query) calls"
      "useCache q = last_supplied useCache_arg (useCache query) calls"
      "auths q = last_supplied auths_arg (auths query) calls"
      "all q = last_supplied all_arg (all query) calls"
      "noManifestPackage q = last_supplied noManifestPackage_arg (noManifestPackage query) calls"
      "noOCIPackage q = last_supplied noOCIPackage_arg (noOCIPackage query) calls"
    using NewQuery_loop_fields [of calls query] by blast
  obtain q' where q': "NewQuery_loop (map option_of calls') query = Inr q'"
    and q'f: "source q' = last_supplied source_arg (source query) calls'"
      "types q' = last_supplied types_arg (types query) calls'"
      "name q' = last_supplied name_arg (name query) calls'"
      "version q' = last_supplied version_arg (version query) calls'"
      "useCache q' = last_supplied useCache_arg (useCache query) calls'"
      "auths q' = last_supplied auths_arg (auths query) calls'"
      "all q' = last_supplied all_arg (all query) calls'"
      "noManifestPackage q' = last_supplied noManifestPackage_arg (noManifestPackage query) calls'"
      "noOCIPackage q' = last_supplied noOCIPackage_arg (noOCIPackage query) calls'"
    using NewQuery_loop_fields [of calls' query] by blast
  have "q = q'"
    by (rule Query.equality)
       (simp_all add: qf q'f last_supplied_perm [OF arg_target(1) assms]
          last_supplied_perm [OF arg_target(2) assms] last_supplied_perm [OF arg_target(3) assms]
          last_supplied_perm [OF arg_target(4) assms] last_supplied_perm [OF arg_target(5) assms]
          last_supplied_perm [OF arg_target(6) assms] last_supplied_perm [OF arg_target(7) assms]
          last_supplied_perm [OF arg_target(8) assms] last_supplied_perm [OF arg_target(9) assms])
  with q q' show ?thesis by simp
qed

subsection \<open>Facts about the rendering and the field contents\<close>

lemma types_strings_append: "types_strings ts acc = acc @ ts"
  by (induction ts arbitrary: acc) simp_all

lemma Query_String_rendering:
  "Query_String cq = Inr (rendering (slice_range (types cq)) (name cq) (version cq))"
proof (cases "types cq")
  case None
  then show ?thesis
    by (simp add: Query_String_def slice_len_def slice_range_def rendering_def
        type_segment_def name_segment_def version_segment_def)
next
  case (Some ts)
  show ?thesis
  proof (cases ts)
    case Nil
    with Some show ?thesis
      by (simp add: Query_String_def slice_len_def slice_range_def rendering_def
          type_segment_def name_segment_def version_segment_def)
  next
    case (Cons t ts')
    with Some show ?thesis
      by (cases ts')
         (simp_all add: Query_String_def slice_len_def slice_index_def slice_range_def
            rendering_def type_segment_def name_segment_def version_segment_def
            types_strings_append)
  qed
qed

lemma field_value_complete:
  fixes query query' :: "'auth Query"
  assumes "\<And>f. field_value f query = field_value f query'"
  shows "query = query'"
  using assms [of FSource] assms [of FTypes] assms [of FName] assms [of FVersion]
    assms [of FUseCache] assms [of FAuths] assms [of FAll] assms [of FNoManifestPackage]
    assms [of FNoOCIPackage]
  by (intro Query.equality) simp_all

subsection \<open>The claims\<close>

text \<open>
  C1: for every sequence of calls of the option constructors, \<^verbatim>\<open>NewQuery\<close> on the
  options they return yields a descriptor, and each of the nine accessors returns the
  value supplied by the last call of the sequence that targets the accessor's field, or
  the zero value of the field (empty string, nil sequence, nil mapping, false) if no
  call targets it.
\<close>

theorem NewQuery_accessors:
  "\<exists>query :: 'auth Query. NewQuery (map option_of calls) = Inr query
     \<and> Query_Source query = last_supplied source_arg [] calls
     \<and> Query_Types query = last_supplied types_arg None calls
     \<and> Query_Name query = last_supplied name_arg [] calls
     \<and> Query_Version query = last_supplied version_arg [] calls
     \<and> Query_UseCache query = last_supplied useCache_arg False calls
     \<and> Query_Auths query = last_supplied auths_arg None calls
     \<and> Query_All query = last_supplied all_arg False calls
     \<and> Query_NoManifestPackage query = last_supplied noManifestPackage_arg False calls
     \<and> Query_NoOCIPackage query = last_supplied noOCIPackage_arg False calls"
  using NewQuery_loop_fields [of calls Query_zero]
  by (simp add: NewQuery_def accessor_defs Query_zero_def)

text \<open>
  C2: two sequences of calls that are permutations of each other, and in which no two
  calls target the same field, build equal descriptors. Two calls that target the same
  field do not commute: of two such calls in a row the second decides the descriptor,
  and \<^verbatim>\<open>WithName("a"), WithName("b")\<close> builds another descriptor than the two in the
  other order.
\<close>

theorem NewQuery_order:
  "(mset calls = mset calls' \<and> distinct (map target calls) \<longrightarrow>
      NewQuery (map option_of calls) = (NewQuery (map option_of calls') :: panic + 'auth Query))
   \<and> (target a = target b \<longrightarrow>
      NewQuery [option_of a, option_of b] = (NewQuery [option_of b] :: panic + 'auth Query))
   \<and> NewQuery [WithName ''a'', WithName ''b''] \<noteq>
       (NewQuery [WithName ''b'', WithName ''a''] :: panic + 'auth Query)"
proof (intro conjI impI)
  assume "mset calls = mset calls' \<and> distinct (map target calls)"
  then show "NewQuery (map option_of calls) = NewQuery (map option_of calls')"
    by (simp add: NewQuery_def NewQuery_loop_perm)
next
  assume "target a = target b"
  then show "NewQuery [option_of a, option_of b] = NewQuery [option_of b]"
    by (cases a; cases b) (simp_all add: NewQuery_def call_option_def option_defs)
next
  show "NewQuery [WithName ''a'', WithName ''b''] \<noteq>
       (NewQuery [WithName ''b'', WithName ''a''] :: panic + 'auth Query)"
    by (simp add: NewQuery_def call_option_def WithName_def Query_zero_def)
qed

theorem NewQuery_order_witness:
  "mset [CallWithName ''foo'', CallWithCache True :: string OptionCall]
       = mset [CallWithCache True, CallWithName ''foo'']
   \<and> distinct (map target [CallWithName ''foo'', CallWithCache True :: string OptionCall])
   \<and> NewQuery (map option_of [CallWithName ''foo'', CallWithCache True])
       = (NewQuery (map option_of [CallWithCache True, CallWithName ''foo'']) :: panic + string Query)
   \<and> target (CallWithName ''foo'' :: string OptionCall) = target (CallWithName ''bar'' :: string OptionCall)
   \<and> NewQuery [option_of (CallWithName ''foo''), option_of (CallWithName ''bar'')]
       = (NewQuery [option_of (CallWithName ''bar'')] :: panic + string Query)"
  using NewQuery_order [of "[CallWithName ''foo'', CallWithCache True :: string OptionCall]"
      "[CallWithCache True, CallWithName ''foo'']" "CallWithName ''foo''" "CallWithName ''bar''"]
  by simp

text \<open>
  C3: applying the option of a call twice in a row to a descriptor under construction
  gives the descriptor that applying it once gives. \<^verbatim>\<open>WithTypes\<close> replaces the stored
  type list by its argument and does not append to it; called with no argument it
  stores the nil slice, whose length is zero.
\<close>

theorem option_twice:
  "(\<exists>query'. NewQuery_loop [option_of c] query = Inr query'
      \<and> NewQuery_loop [option_of c, option_of c] query = Inr query')
   \<and> (\<exists>query'. NewQuery_loop [WithTypes old, WithTypes new] query = Inr query'
      \<and> types query' = new)
   \<and> (\<exists>query'. NewQuery_loop [WithTypes old, WithTypes None] query = Inr query'
      \<and> types query' = None \<and> slice_len (types query') = 0)"
  by (cases c) (simp_all add: call_option_def option_defs slice_len_def)

text \<open>
  C4: the string of a descriptor is the type segment, then the name or \<open>*\<close>, then the
  version after a colon if there is one, with nothing in between; the four renderings
  that the specification lists are the ones the source computes (the empty type list
  both as an empty slice and as the nil slice).
\<close>

theorem Query_String_canonical:
  "Query_String cq = Inr (rendering (slice_range (Query_Types cq)) (Query_Name cq) (Query_Version cq))
   \<and> Query_String (cq\<lparr>types := Some [''lib''], name := ''foo'', version := ''1.0''\<rparr>)
       = Inr ''lib-foo:1.0''
   \<and> Query_String (cq\<lparr>types := Some [''lib'', ''app''], name := [], version := []\<rparr>)
       = Inr ''{lib, app}-*''
   \<and> Query_String (cq\<lparr>types := Some [], name := ''foo'', version := []\<rparr>) = Inr ''foo''
   \<and> Query_String (cq\<lparr>types := None, name := ''foo'', version := []\<rparr>) = Inr ''foo''
   \<and> Query_String (Query_zero :: 'auth Query) = Inr ''*''"
  by (simp add: Query_String_rendering Query_Types_def Query_Name_def Query_Version_def
      rendering_def type_segment_def name_segment_def version_segment_def slice_range_def
      Query_zero_def)

text \<open>
  C5: the value of \<^verbatim>\<open>Fields()\<close> at \<^verbatim>\<open>"auth"\<close> is the boolean true exactly when the auth
  mapping is not nil, also when it is present and empty, and false exactly when it is
  nil. The mapping returned by \<^verbatim>\<open>Fields()\<close> is the same for any two present auth
  mappings: it does not depend on the credentials.
\<close>

theorem Fields_auth:
  "Query_Fields query ''auth'' = Some (IBool (Query_Auths query \<noteq> None))
   \<and> (Query_Fields query ''auth'' = Some (IBool True)) = (Query_Auths query \<noteq> None)
   \<and> (Query_Fields query ''auth'' = Some (IBool False)) = (Query_Auths query = None)
   \<and> Query_Fields (query\<lparr>auths := Some Map.empty\<rparr>) ''auth'' = Some (IBool True)
   \<and> Query_Fields (query\<lparr>auths := None\<rparr>) ''auth'' = Some (IBool False)
   \<and> Query_Fields (query\<lparr>auths := Some m\<rparr>) = Query_Fields (query\<lparr>auths := Some m'\<rparr>)"
  by (simp add: Query_Fields_def Query_Auths_def)

text \<open>
  C6: \<^verbatim>\<open>NewQuery\<close> applied to no option returns the descriptor whose fields are all
  zero: Source, Name and Version are the empty string, the four flags are false, Types
  is the nil sequence and Auths the nil mapping.
\<close>

theorem NewQuery_no_options:
  "\<exists>query :: 'auth Query. NewQuery [] = Inr query
     \<and> Query_Source query = [] \<and> Query_Name query = [] \<and> Query_Version query = []
     \<and> Query_UseCache query = False \<and> Query_All query = False
     \<and> Query_NoManifestPackage query = False \<and> Query_NoOCIPackage query = False
     \<and> Query_Types query = None \<and> slice_len (Query_Types query) = 0
     \<and> Query_Auths query = None"
  by (simp add: NewQuery_def Query_zero_def Query_Source_def Query_Name_def
      Query_Version_def Query_UseCache_def Query_All_def Query_NoManifestPackage_def
      Query_NoOCIPackage_def Query_Types_def Query_Auths_def slice_len_def)

text \<open>
  C7: the option of every call of the nine constructors, applied to any descriptor
  under construction, returns a descriptor in which every field other than the one the
  call targets has the content it had before.
\<close>

theorem option_frame:
  "\<exists>query'. call_option (option_of c) query = Inr query'
     \<and> (\<forall>f. f \<noteq> target c \<longrightarrow> field_value f query' = field_value f query)"
proof (cases c)
  case (CallWithSource s)
  have "field_value f (query\<lparr>source := s\<rparr>) = field_value f query" if "f \<noteq> FSource" for f
    using that by (cases f) simp_all
  with CallWithSource show ?thesis by (simp add: call_option_def WithSource_def)
next
  case (CallWithTypes ts)
  have "field_value f (query\<lparr>types := ts\<rparr>) = field_value f query" if "f \<noteq> FTypes" for f
    using that by (cases f) simp_all
  with CallWithTypes show ?thesis by (simp add: call_option_def WithTypes_def)
next
  case (CallWithName n)
  have "field_value f (query\<lparr>name := n\<rparr>) = field_value f query" if "f \<noteq> FName" for f
    using that by (cases f) simp_all
  with CallWithName show ?thesis by (simp add: call_option_def WithName_def)
next
  case (CallWithVersion v)
  have "field_value f (query\<lparr>version := v\<rparr>) = field_value f query" if "f \<noteq> FVersion" for f
    using that by (cases f) simp_all
  with CallWithVersion show ?thesis by (simp add: call_option_def WithVersion_def)
next
  case (CallWithCache b)
  have "field_value f (query\<lparr>useCache := b\<rparr>) = field_value f query" if "f \<noteq> FUseCache" for f
    using that by (cases f) simp_all
  with CallWithCache show ?thesis by (simp add: call_option_def WithCache_def)
next
  case (CallWithAuthConfig a)
  have "field_value f (query\<lparr>auths := a\<rparr>) = field_value f query" if "f \<noteq> FAuths" for f
    using that by (cases f) simp_all
  with CallWithAuthConfig show ?thesis by (simp add: call_option_def WithAuthConfig_def)
next
  case (CallWithAll b)
  have "field_value f (query\<lparr>all := b\<rparr>) = field_value f query" if "f \<noteq> FAll" for f
    using that by (cases f) simp_all
  with CallWithAll show ?thesis by (simp add: call_option_def WithAll_def)
next
  case (CallWithNoManifestPackage b)
  have "field_value f (query\<lparr>noManifestPackage := b\<rparr>) = field_value f query"
    if "f \<noteq> FNoManifestPackage" for f
    using that by (cases f) simp_all
  with CallWithNoManifestPackage show ?thesis
    by (simp add: call_option_def WithNoManifestPackage_def)
next
  case (CallWithNoOCIPackage b)
  have "field_value f (query\<lparr>noOCIPackage := b\<rparr>) = field_value f query"
    if "f \<noteq> FNoOCIPackage" for f
    using that by (cases f) simp_all
  with CallWithNoOCIPackage show ?thesis
    by (simp add: call_option_def WithNoOCIPackage_def)
qed

theorem option_frame_witness:
  "\<exists>query'.
     call_option (option_of (CallWithName ''foo''))
       \<lparr>source = ''oci'', types = Some [''lib''], name = ''bar'', version = ''1.0'',
        useCache = True, auths = Some [''example.org'' \<mapsto> ''token''], all = True,
        noManifestPackage = True, noOCIPackage = True\<rparr> = Inr query'
     \<and> FName = target (CallWithName ''foo'' :: string OptionCall)
     \<and> field_value FSource query' = VString ''oci''
     \<and> field_value FTypes query' = VTypes (Some [''lib''])
     \<and> field_value FVersion query' = VString ''1.0''
     \<and> field_value FUseCache query' = VBool True
     \<and> field_value FAuths query' = VAuths (Some [''example.org'' \<mapsto> ''token''])
     \<and> field_value FAll query' = VBool True
     \<and> field_value FNoManifestPackage query' = VBool True
     \<and> field_value FNoOCIPackage query' = VBool True"
proof -
  let ?c = "CallWithName ''foo'' :: string OptionCall"
  let ?q = "\<lparr>source = ''oci'', types = Some [''lib''], name = ''bar'', version = ''1.0'',
        useCache = True, auths = Some [''example.org'' \<mapsto> ''token''], all = True,
        noManifestPackage = True, noOCIPackage = True\<rparr>"
  from option_frame [of ?c ?q] obtain query'
    where run: "call_option (option_of ?c) ?q = Inr query'"
      and frame: "\<And>f. f \<noteq> target ?c \<Longrightarrow> field_value f query' = field_value f ?q"
    by blast
  have "field_value FSource query' = VString ''oci''"
    and "field_value FTypes query' = VTypes (Some [''lib''])"
    and "field_value FVersion query' = VString ''1.0''"
    and "field_value FUseCache query' = VBool True"
    and "field_value FAuths query' = VAuths (Some [''example.org'' \<mapsto> ''token''])"
    and "field_value FAll query' = VBool True"
    and "field_value FNoManifestPackage query' = VBool True"
    and "field_value FNoOCIPackage query' = VBool True"
    using frame [of FSource] frame [of FTypes] frame [of FVersion] frame [of FUseCache]
      frame [of FAuths] frame [of FAll] frame [of FNoManifestPackage] frame [of FNoOCIPackage]
    by simp_all
  with run show ?thesis by simp
qed

text \<open>
  C8: two descriptors that agree on types, name and version have the same string,
  whatever their source, useCache, auths, all, noManifestPackage and noOCIPackage.
\<close>

theorem Query_String_depends:
  "types cq = types cq' \<Longrightarrow> name cq = name cq' \<Longrightarrow> version cq = version cq'
     \<Longrightarrow> Query_String cq = Query_String cq'"
  by (simp add: Query_String_rendering)

theorem Query_String_depends_witness:
  "types \<lparr>source = ''oci'', types = Some [''lib''], name = ''foo'', version = ''1.0'',
      useCache = True, auths = Some [''example.org'' \<mapsto> ''token''], all = True,
      noManifestPackage = True, noOCIPackage = True\<rparr>
     = types ((Query_zero :: string Query)\<lparr>types := Some [''lib''], name := ''foo'', version := ''1.0''\<rparr>)
   \<and> name \<lparr>source = ''oci'', types = Some [''lib''], name = ''foo'', version = ''1.0'',
      useCache = True, auths = Some [''example.org'' \<mapsto> ''token''], all = True,
      noManifestPackage = True, noOCIPackage = True\<rparr>
     = name ((Query_zero :: string Query)\<lparr>types := Some [''lib''], name := ''foo'', version := ''1.0''\<rparr>)
   \<and> version \<lparr>source = ''oci'', types = Some [''lib''], name = ''foo'', version = ''1.0'',
      useCache = True, auths = Some [''example.org'' \<mapsto> ''token''], all = True,
      noManifestPackage = True, noOCIPackage = True\<rparr>
     = version ((Query_zero :: string Query)\<lparr>types := Some [''lib''], name := ''foo'', version := ''1.0''\<rparr>)
   \<and> Query_String \<lparr>source = ''oci'', types = Some [''lib''], name = ''foo'', version = ''1.0'',
      useCache = True, auths = Some [''example.org'' \<mapsto> ''token''], all = True,
      noManifestPackage = True, noOCIPackage = True\<rparr>
     = Query_String ((Query_zero :: string Query)\<lparr>types := Some [''lib''], name := ''foo'', version := ''1.0''\<rparr>)"
  using Query_String_depends [of
      "\<lparr>source = ''oci'', types = Some [''lib''], name = ''foo'', version = ''1.0'',
        useCache = True, auths = Some [''example.org'' \<mapsto> ''token''], all = True,
        noManifestPackage = True, noOCIPackage = True\<rparr>"
      "(Query_zero :: string Query)\<lparr>types := Some [''lib''], name := ''foo'', version := ''1.0''\<rparr>"]
  by simp

text \<open>
  C9: nothing fails. Every call of a constructor returns a closure (not nil), so
  \<^verbatim>\<open>NewQuery\<close> on any sequence of such options returns a descriptor, also for empty
  strings, a nil map, no type tag and \<^verbatim>\<open>all\<close> together with a name; the rendering
  returns a string on every descriptor, the zero one included. The rendering reads
  \<^verbatim>\<open>types[0]\<close> only when the length is one, where the read is in range; the read would
  panic exactly on a slice of length zero. \<^verbatim>\<open>Fields()\<close> has the same keys on every
  descriptor. The accessors and \<^verbatim>\<open>Fields()\<close> consist of field reads and a map literal:
  the source has no statement there that can panic on a descriptor value.
\<close>

theorem no_failure:
  "(\<exists>f. option_of c = Some f)
   \<and> (\<exists>query. NewQuery (map option_of calls) = Inr query)
   \<and> (\<exists>query. NewQuery [WithAll True, WithName ''foo'', WithSource [], WithTypes None,
          WithAuthConfig None] = Inr (query :: 'auth Query)
        \<and> Query_All query = True \<and> Query_Name query = ''foo'')
   \<and> (\<exists>s. Query_String cq = Inr s)
   \<and> Query_String (Query_zero :: 'auth Query) = Inr ''*''
   \<and> (slice_len (types cq) = 1) = (\<exists>t. types cq = Some [t] \<and> slice_index (types cq) 0 = Inr t)
   \<and> (slice_index (types cq) 0 = Inl IndexOutOfRange) = (slice_len (types cq) = 0)
   \<and> dom (Query_Fields (Query_zero :: 'auth Query)) = dom (Query_Fields cq)"
proof (intro conjI)
  show "\<exists>f. option_of c = Some f"
    by (cases c) (simp_all add: option_defs)
  show "\<exists>query. NewQuery (map option_of calls) = Inr query"
    using NewQuery_loop_fields [of calls Query_zero] by (auto simp: NewQuery_def)
  show "\<exists>query. NewQuery [WithAll True, WithName ''foo'', WithSource [], WithTypes None,
          WithAuthConfig None] = Inr (query :: 'auth Query)
        \<and> Query_All query = True \<and> Query_Name query = ''foo''"
    by (simp add: NewQuery_def call_option_def option_defs Query_All_def Query_Name_def)
  show "\<exists>s. Query_String cq = Inr s"
    by (simp add: Query_String_rendering)
  show "Query_String (Query_zero :: 'auth Query) = Inr ''*''"
    by (simp add: Query_String_rendering Query_zero_def rendering_def type_segment_def
        name_segment_def version_segment_def slice_range_def)
  show "(slice_len (types cq) = 1) = (\<exists>t. types cq = Some [t] \<and> slice_index (types cq) 0 = Inr t)"
    by (cases "types cq") (auto simp: slice_len_def slice_index_def length_Suc_conv)
  show "(slice_index (types cq) 0 = Inl IndexOutOfRange) = (slice_len (types cq) = 0)"
    by (cases "types cq") (simp_all add: slice_len_def slice_index_def)
  show "dom (Query_Fields (Query_zero :: 'auth Query)) = dom (Query_Fields cq)"
    by (simp add: Query_Fields_def)
qed

text \<open>
  C10: \<^verbatim>\<open>Fields()\<close> has exactly the keys \<^verbatim>\<open>name\<close>, \<^verbatim>\<open>version\<close>, \<^verbatim>\<open>source\<close>, \<^verbatim>\<open>types\<close>,
  \<^verbatim>\<open>cache\<close> and \<^verbatim>\<open>auth\<close>; the first five hold what the accessors return. The flags all,
  noManifestPackage and noOCIPackage have no key, and the mapping does not depend on
  them.
\<close>

theorem Fields_keys:
  "dom (Query_Fields query) = {''name'', ''version'', ''source'', ''types'', ''cache'', ''auth''}
   \<and> Query_Fields query ''name'' = Some (IString (Query_Name query))
   \<and> Query_Fields query ''version'' = Some (IString (Query_Version query))
   \<and> Query_Fields query ''source'' = Some (IString (Query_Source query))
   \<and> Query_Fields query ''types'' = Some (ITypes (Query_Types query))
   \<and> Query_Fields query ''cache'' = Some (IBool (Query_UseCache query))
   \<and> Query_Fields query ''all'' = None
   \<and> Query_Fields query ''noManifestPackage'' = None
   \<and> Query_Fields query ''noOCIPackage'' = None
   \<and> Query_Fields (query\<lparr>all := a, noManifestPackage := m, noOCIPackage := oci\<rparr>)
       = Query_Fields query"
  by (simp add: Query_Fields_def accessor_defs) auto

end
